theory Spec2Isabelle
  imports Complex_Main
begin

section \<open>Map viewport framing (components/BusinessMap.tsx)\<close>

text \<open>
  JavaScript numbers that hold coordinates are modelled as reals: the arithmetic of the
  viewport code is addition, subtraction, halving, scaling by 2.5, absolute value and
  maximum. NaN, overflow and rounding are outside the model, so the statements below are the
  formulas of the code and order facts that rounding to the nearest double keeps
  (a bound by a maximum, a midpoint between its end points, end points included);
  none says that a midpoint differs from an end point.

  The prop \<open>userLocation\<close> is an optional object \<open>{latitude, longitude}\<close>; a region is the
  same pair extended by the two zoom deltas.
\<close>

record latlng =
  latitude :: real
  longitude :: real

record region = latlng +
  latitudeDelta :: real
  longitudeDelta :: real

text \<open>
  A business carries \<open>location.coordinates\<close>, typed \<open>[number, number]\<close> and stored as
  [longitude, latitude]: index 0 is the first component, index 1 the second. Of the
  other fields of a business, as of a booking and a user below, the records keep the
  identifier and a few that tell two values apart; the code modelled here reads no
  other.
\<close>

record business =
  business_id :: string
  business_name :: string
  coordinates :: "real \<times> real"

definition atlantaRegion :: region where
  "atlantaRegion =
     \<lparr>latitude = 33.7490, longitude = -84.3880,
      latitudeDelta = 0.0922, longitudeDelta = 0.0421\<rparr>"

definition calculateOptimalRegion :: "latlng \<Rightarrow> business \<Rightarrow> region" where
  "calculateOptimalRegion userLoc nearestBusiness =
     (let businessLat = snd (coordinates nearestBusiness);
          businessLng = fst (coordinates nearestBusiness);
          centerLat = (latitude userLoc + businessLat) / 2;
          centerLng = (longitude userLoc + businessLng) / 2;
          latDiff = \<bar>latitude userLoc - businessLat\<bar>;
          lngDiff = \<bar>longitude userLoc - businessLng\<bar>;
          paddingFactor = 2.5;
          minDelta = 0.05;
          latitudeDelta = max (latDiff * paddingFactor) minDelta;
          longitudeDelta = max (lngDiff * paddingFactor) minDelta
      in \<lparr>latitude = centerLat, longitude = centerLng,
          latitudeDelta = latitudeDelta, longitudeDelta = longitudeDelta\<rparr>)"

text \<open>
  The effect of the component on its region state: the region handed to \<open>setRegion\<close>,
  by the four rules in the order of the source, each ending in \<open>return\<close>. The props
  \<open>centerOnNearestBusiness\<close> and \<open>showUserAndNearestBusiness\<close> are read by no rule, so
  the function takes the optional user location and the business list only.
\<close>

definition mapRegion :: "latlng option \<Rightarrow> business list \<Rightarrow> region" where
  "mapRegion userLocation businessList =
     (if userLocation \<noteq> None \<and> length businessList > 0 then
        calculateOptimalRegion (the userLocation) (businessList ! 0)
      else if userLocation \<noteq> None then
        \<lparr>latitude = latitude (the userLocation),
         longitude = longitude (the userLocation),
         latitudeDelta = 0.0922, longitudeDelta = 0.0421\<rparr>
      else if length businessList > 0 then
        \<lparr>latitude = snd (coordinates (businessList ! 0)),
         longitude = fst (coordinates (businessList ! 0)),
         latitudeDelta = 0.0922, longitudeDelta = 0.0421\<rparr>
      else atlantaRegion)"

section \<open>Bookings (types/index.ts) and cancellation eligibility\<close>

datatype booking_status = Pending | Confirmed | Active | Completed | Cancelled | Expired

text \<open>
  \<open>startTime\<close> is the value of \<open>new Date(booking.startTime).getTime()\<close>: milliseconds
  since the epoch.
\<close>

record booking =
  booking_id :: string
  userId :: string
  businessId :: string
  lockerNumber :: string
  startTime :: int
  status :: booking_status

text \<open>
  The bookings list (\<open>canCancelBooking\<close>, with \<open>now\<close> the value of
  \<open>new Date().getTime()\<close>) and the booking details screen (\<open>canCancel\<close>) each decide
  whether the cancel button is shown.
\<close>

definition canCancelBooking :: "int \<Rightarrow> booking \<Rightarrow> bool" where
  "canCancelBooking now b =
     (if status b = Completed \<or> status b = Cancelled then False
      else
        (let timeDifference = startTime b - now;
             hoursUntilStart = real_of_int timeDifference / (1000 * 60 * 60)
         in hoursUntilStart \<ge> 1))"

definition canCancel :: "booking \<Rightarrow> bool" where
  "canCancel b = (status b = Confirmed \<or> status b = Active)"

section \<open>State containers (store/*Slice.ts)\<close>

text \<open>
  Every slice state holds the loading flag and the error string; each slice extends them
  by its data. A reducer maps the prior state and an action to the next state; an action
  no case is registered for leaves the state as it is.
\<close>

record async_state =
  isLoading :: bool
  error :: "string option"

subsection \<open>Array operations of the reducers\<close>

text \<open>\<open>Array.prototype.findIndex\<close>: the first index whose element passes, or -1.\<close>

fun findIndex :: "('a \<Rightarrow> bool) \<Rightarrow> 'a list \<Rightarrow> int" where
  "findIndex P [] = -1"
| "findIndex P (x # xs) =
     (if P x then 0
      else (let i = findIndex P xs in if i = -1 then -1 else i + 1))"

text \<open>\<open>xs.splice(i, 1)\<close> for an index in range: the list without its element at \<open>i\<close>.\<close>

definition splice1 :: "nat \<Rightarrow> 'a list \<Rightarrow> 'a list" where
  "splice1 i xs = take i xs @ drop (Suc i) xs"

subsection \<open>bookingSlice\<close>

record booking_state = async_state +
  bookings :: "booking list"
  activeBookings :: "booking list"
  selectedBooking :: "booking option"

definition booking_initialState :: booking_state where
  "booking_initialState =
     \<lparr>isLoading = False, error = None,
      bookings = [], activeBookings = [], selectedBooking = None\<rparr>"

datatype booking_action =
    BookingClearError
  | SetSelectedBooking "booking option"
  | ClearBookings
  | CreateBookingPending | CreateBookingFulfilled booking | CreateBookingRejected string
  | FetchUserBookingsPending | FetchUserBookingsFulfilled "booking list"
  | FetchUserBookingsRejected string
  | FetchActiveBookingsPending | FetchActiveBookingsFulfilled "booking list"
  | FetchActiveBookingsRejected string
  | UpdateBookingStatusPending | UpdateBookingStatusFulfilled booking
  | UpdateBookingStatusRejected string
  | CancelBookingPending | CancelBookingFulfilled booking | CancelBookingRejected string
  | CheckInToLockerPending | CheckInToLockerFulfilled booking
  | CheckInToLockerRejected string
  | CheckOutFromLockerPending | CheckOutFromLockerFulfilled booking
  | CheckOutFromLockerRejected string

text \<open>
  The three steps shared by the update, cancel, check-in and check-out cases:
  \<open>state.bookings[index] = payload\<close> when \<open>findIndex\<close> found the id, and the same test
  on \<open>selectedBooking?._id\<close>.
\<close>

definition replaceById :: "booking \<Rightarrow> booking list \<Rightarrow> booking list" where
  "replaceById payload xs =
     (let index = findIndex (\<lambda>b. booking_id b = booking_id payload) xs
      in if index \<noteq> -1 then xs[nat index := payload] else xs)"

definition spliceById :: "booking \<Rightarrow> booking list \<Rightarrow> booking list" where
  "spliceById payload xs =
     (let activeIndex = findIndex (\<lambda>b. booking_id b = booking_id payload) xs
      in if activeIndex \<noteq> -1 then splice1 (nat activeIndex) xs else xs)"

definition reselect :: "booking \<Rightarrow> booking option \<Rightarrow> booking option" where
  "reselect payload sel =
     (case sel of
        None \<Rightarrow> None
      | Some b \<Rightarrow> if booking_id b = booking_id payload then Some payload else Some b)"

definition updateActive :: "booking \<Rightarrow> booking list \<Rightarrow> booking list" where
  "updateActive payload xs =
     (let activeIndex = findIndex (\<lambda>b. booking_id b = booking_id payload) xs
      in if status payload = Active \<and> activeIndex = -1 then xs @ [payload]
         else if status payload \<noteq> Active \<and> activeIndex \<noteq> -1
           then splice1 (nat activeIndex) xs
         else if activeIndex \<noteq> -1 then xs[nat activeIndex := payload]
         else xs)"

fun bookingReducer :: "booking_state \<Rightarrow> booking_action \<Rightarrow> booking_state" where
  "bookingReducer s BookingClearError = s\<lparr>error := None\<rparr>"
| "bookingReducer s (SetSelectedBooking sel) = s\<lparr>selectedBooking := sel\<rparr>"
| "bookingReducer s ClearBookings =
     s\<lparr>bookings := [], activeBookings := [], selectedBooking := None\<rparr>"
| "bookingReducer s CreateBookingPending = s\<lparr>isLoading := True, error := None\<rparr>"
| "bookingReducer s (CreateBookingFulfilled payload) =
     s\<lparr>isLoading := False,
       bookings := payload # bookings s,
       activeBookings :=
         (if status payload = Active then payload # activeBookings s
          else activeBookings s),
       error := None\<rparr>"
| "bookingReducer s (CreateBookingRejected payload) =
     s\<lparr>isLoading := False, error := Some payload\<rparr>"
| "bookingReducer s FetchUserBookingsPending = s\<lparr>isLoading := True, error := None\<rparr>"
| "bookingReducer s (FetchUserBookingsFulfilled payload) =
     s\<lparr>isLoading := False, bookings := payload, error := None\<rparr>"
| "bookingReducer s (FetchUserBookingsRejected payload) =
     s\<lparr>isLoading := False, error := Some payload\<rparr>"
| "bookingReducer s (FetchActiveBookingsFulfilled payload) =
     s\<lparr>activeBookings := payload\<rparr>"
| "bookingReducer s (UpdateBookingStatusFulfilled payload) =
     s\<lparr>bookings := replaceById payload (bookings s),
       activeBookings := updateActive payload (activeBookings s),
       selectedBooking := reselect payload (selectedBooking s)\<rparr>"
| "bookingReducer s CancelBookingPending = s\<lparr>isLoading := True, error := None\<rparr>"
| "bookingReducer s (CancelBookingFulfilled payload) =
     s\<lparr>isLoading := False,
       bookings := replaceById payload (bookings s),
       activeBookings := spliceById payload (activeBookings s),
       selectedBooking := reselect payload (selectedBooking s),
       error := None\<rparr>"
| "bookingReducer s (CancelBookingRejected payload) =
     s\<lparr>isLoading := False, error := Some payload\<rparr>"
| "bookingReducer s (CheckInToLockerFulfilled payload) =
     s\<lparr>bookings := replaceById payload (bookings s),
       activeBookings := replaceById payload (activeBookings s),
       selectedBooking := reselect payload (selectedBooking s)\<rparr>"
| "bookingReducer s (CheckOutFromLockerFulfilled payload) =
     s\<lparr>bookings := replaceById payload (bookings s),
       activeBookings := spliceById payload (activeBookings s),
       selectedBooking := reselect payload (selectedBooking s)\<rparr>"
| "bookingReducer s _ = s"

subsection \<open>authSlice\<close>

record user =
  user_id :: string
  firstName :: string
  lastName :: string
  email :: string
  phoneNumber :: string
  role :: string
  isActive :: bool

record auth_state = async_state +
  user :: "user option"
  token :: "string option"
  isAuthenticated :: bool

definition auth_initialState :: auth_state where
  "auth_initialState =
     \<lparr>isLoading = False, error = None,
      user = None, token = None, isAuthenticated = False\<rparr>"

text \<open>
  A fulfilled login, registration or stored-auth load carries the pair of an
  \<open>AuthResponse\<close>: the user and the token.
\<close>

datatype auth_action =
    AuthClearError
  | SetUser user
  | LoginUserPending | LoginUserFulfilled user string | LoginUserRejected string
  | RegisterUserPending | RegisterUserFulfilled user string | RegisterUserRejected string
  | LoadStoredAuthPending | LoadStoredAuthFulfilled user string
  | LoadStoredAuthRejected string
  | LogoutUserPending | LogoutUserFulfilled | LogoutUserRejected string
  | UpdateProfilePending | UpdateProfileFulfilled user | UpdateProfileRejected string

fun authReducer :: "auth_state \<Rightarrow> auth_action \<Rightarrow> auth_state" where
  "authReducer s AuthClearError = s\<lparr>error := None\<rparr>"
| "authReducer s (SetUser payload) = s\<lparr>user := Some payload\<rparr>"
| "authReducer s LoginUserPending = s\<lparr>isLoading := True, error := None\<rparr>"
| "authReducer s (LoginUserFulfilled u t) =
     s\<lparr>isLoading := False, user := Some u, token := Some t,
       isAuthenticated := True, error := None\<rparr>"
| "authReducer s (LoginUserRejected payload) =
     s\<lparr>isLoading := False, error := Some payload, isAuthenticated := False\<rparr>"
| "authReducer s RegisterUserPending = s\<lparr>isLoading := True, error := None\<rparr>"
| "authReducer s (RegisterUserFulfilled u t) =
     s\<lparr>isLoading := False, user := Some u, token := Some t,
       isAuthenticated := True, error := None\<rparr>"
| "authReducer s (RegisterUserRejected payload) =
     s\<lparr>isLoading := False, error := Some payload, isAuthenticated := False\<rparr>"
| "authReducer s LoadStoredAuthPending = s\<lparr>isLoading := True\<rparr>"
| "authReducer s (LoadStoredAuthFulfilled u t) =
     s\<lparr>isLoading := False, user := Some u, token := Some t, isAuthenticated := True\<rparr>"
| "authReducer s (LoadStoredAuthRejected payload) =
     s\<lparr>isLoading := False, isAuthenticated := False\<rparr>"
| "authReducer s LogoutUserFulfilled =
     s\<lparr>user := None, token := None, isAuthenticated := False, error := None\<rparr>"
| "authReducer s UpdateProfilePending = s\<lparr>isLoading := True, error := None\<rparr>"
| "authReducer s (UpdateProfileFulfilled payload) =
     s\<lparr>isLoading := False, user := Some payload, error := None\<rparr>"
| "authReducer s (UpdateProfileRejected payload) =
     s\<lparr>isLoading := False, error := Some payload\<rparr>"
| "authReducer s _ = s"

subsection \<open>businessSlice\<close>

record searchBusinessesRequest =
  req_latitude :: "real option"
  req_longitude :: "real option"
  radius :: "real option"
  zipCode :: "string option"
  businessType :: "string option"
  req_name :: "string option"
  page :: "int option"
  limit :: "int option"

record business_state = async_state +
  businesses :: "business list"
  selectedBusiness :: "business option"
  nearbyBusinesses :: "business list"
  searchParams :: "searchBusinessesRequest option"

definition business_initialState :: business_state where
  "business_initialState =
     \<lparr>isLoading = False, error = None,
      businesses = [], selectedBusiness = None, nearbyBusinesses = [],
      searchParams = None\<rparr>"

datatype business_action =
    BusinessClearError
  | SetSelectedBusiness "business option"
  | ClearBusinesses
  | SearchBusinessesPending
  | SearchBusinessesFulfilled "business list" searchBusinessesRequest
  | SearchBusinessesRejected string
  | FetchNearbyBusinessesPending | FetchNearbyBusinessesFulfilled "business list"
  | FetchNearbyBusinessesRejected string
  | FetchBusinessByIdPending | FetchBusinessByIdFulfilled business
  | FetchBusinessByIdRejected string

fun businessReducer :: "business_state \<Rightarrow> business_action \<Rightarrow> business_state" where
  "businessReducer s BusinessClearError = s\<lparr>error := None\<rparr>"
| "businessReducer s (SetSelectedBusiness payload) = s\<lparr>selectedBusiness := payload\<rparr>"
| "businessReducer s ClearBusinesses =
     s\<lparr>businesses := [], nearbyBusinesses := [], selectedBusiness := None,
       searchParams := None\<rparr>"
| "businessReducer s SearchBusinessesPending = s\<lparr>isLoading := True, error := None\<rparr>"
| "businessReducer s (SearchBusinessesFulfilled bs params) =
     s\<lparr>isLoading := False, businesses := bs, searchParams := Some params,
       error := None\<rparr>"
| "businessReducer s (SearchBusinessesRejected payload) =
     s\<lparr>isLoading := False, error := Some payload\<rparr>"
| "businessReducer s FetchNearbyBusinessesPending =
     s\<lparr>isLoading := True, error := None\<rparr>"
| "businessReducer s (FetchNearbyBusinessesFulfilled payload) =
     s\<lparr>isLoading := False, nearbyBusinesses := payload, error := None\<rparr>"
| "businessReducer s (FetchNearbyBusinessesRejected payload) =
     s\<lparr>isLoading := False, error := Some payload\<rparr>"
| "businessReducer s FetchBusinessByIdPending = s\<lparr>isLoading := True, error := None\<rparr>"
| "businessReducer s (FetchBusinessByIdFulfilled payload) =
     s\<lparr>isLoading := False, selectedBusiness := Some payload, error := None\<rparr>"
| "businessReducer s (FetchBusinessByIdRejected payload) =
     s\<lparr>isLoading := False, error := Some payload\<rparr>"

section \<open>Search screen: the list on display (screens/SearchScreen.tsx)\<close>

definition displayBusinesses :: "business_state \<Rightarrow> business list" where
  "displayBusinesses s =
     (if length (businesses s) > 0 then businesses s
      else if length (nearbyBusinesses s) > 0 then nearbyBusinesses s
      else [])"

section \<open>API client: the response interceptor (services/api.ts)\<close>

text \<open>
  \<open>AsyncStorage\<close> is a store of strings under string keys. A request either gets no
  response (network failure, timeout) or a response with a status code.
\<close>

type_synonym asyncStorage = "string \<rightharpoonup> string"

record http_response =
  response_status :: int
  response_data :: string

record axiosError =
  message :: string
  response :: "http_response option"

text \<open>The operations of \<open>ApiService\<close>; each one awaits a call on the one axios instance.\<close>

datatype api_operation =
    Login | Register | GetProfile
  | SearchBusinesses | GetBusinessById | GetNearbyBusinesses
  | CreateBooking | GetUserBookings | GetBookingById
  | UpdateBookingStatus | CancelBooking | CheckInToLocker | CheckOutFromLocker
  | UpdateUserProfile

text \<open>
  The two handlers registered with \<open>interceptors.response.use\<close>. The first returns the
  response; the second removes both keys on a 401 and rejects with the error again.
\<close>

definition onResponse :: "asyncStorage \<Rightarrow> http_response \<Rightarrow> asyncStorage \<times> (axiosError + http_response)" where
  "onResponse storage r = (storage, Inr r)"

definition onResponseError :: "asyncStorage \<Rightarrow> axiosError \<Rightarrow> asyncStorage \<times> (axiosError + http_response)" where
  "onResponseError storage err =
     (if map_option response_status (response err) = Some 401
      then (storage(''auth_token'' := None, ''user_data'' := None), Inl err)
      else (storage, Inl err))"

text \<open>
  The instance is created with no \<open>validateStatus\<close>, so axios settles a response by its
  default: a status from 200 to 299 resolves, any other status rejects with an error
  that carries the response, and a request without a response rejects with an error
  that carries none. The settled promise then runs through the interceptor, whatever
  the operation.
\<close>

definition apiCall :: "api_operation \<Rightarrow> asyncStorage \<Rightarrow> http_response option \<Rightarrow> asyncStorage \<times> (axiosError + http_response)" where
  "apiCall operation storage outcome =
     (case outcome of
        None \<Rightarrow> onResponseError storage \<lparr>message = ''Network Error'', response = None\<rparr>
      | Some r \<Rightarrow>
          if 200 \<le> response_status r \<and> response_status r < 300 then onResponse storage r
          else onResponseError storage
                 \<lparr>message = ''Request failed'', response = Some r\<rparr>)"

section \<open>Concrete inputs\<close>

text \<open>
  The scenario of the specification: a user north-west of the nearest business. The
  downtown pair is the fallback position of the location service in a development
  build, and a business at that very point.
\<close>

definition scenario_user :: latlng where
  "scenario_user = \<lparr>latitude = 33.9427, longitude = -84.4407\<rparr>"

definition scenario_business :: business where
  "scenario_business =
     \<lparr>business_id = ''b1'', business_name = ''Midtown Lockers'',
      coordinates = (-84.3627, 33.7729)\<rparr>"

definition downtown_user :: latlng where
  "downtown_user = \<lparr>latitude = 33.7490, longitude = -84.3880\<rparr>"

definition downtown_business :: business where
  "downtown_business =
     \<lparr>business_id = ''b2'', business_name = ''Downtown Lockers'',
      coordinates = (-84.3880, 33.7490)\<rparr>"

text \<open>
  Bookings seen at time 0: starting in half an hour, in exactly one hour, in two hours,
  one completed and one in use.
\<close>

definition booking_soon :: booking where
  "booking_soon =
     \<lparr>booking_id = ''bk1'', userId = ''u1'', businessId = ''b1'', lockerNumber = ''A1'',
      startTime = 1800000, status = Confirmed\<rparr>"

definition booking_in_one_hour :: booking where
  "booking_in_one_hour =
     \<lparr>booking_id = ''bk5'', userId = ''u1'', businessId = ''b1'', lockerNumber = ''A5'',
      startTime = 3600000, status = Confirmed\<rparr>"

definition booking_later :: booking where
  "booking_later =
     \<lparr>booking_id = ''bk2'', userId = ''u1'', businessId = ''b1'', lockerNumber = ''A2'',
      startTime = 7200000, status = Confirmed\<rparr>"

definition booking_done :: booking where
  "booking_done =
     \<lparr>booking_id = ''bk3'', userId = ''u1'', businessId = ''b1'', lockerNumber = ''A3'',
      startTime = 7200000, status = Completed\<rparr>"

definition booking_active :: booking where
  "booking_active =
     \<lparr>booking_id = ''bk4'', userId = ''u1'', businessId = ''b2'', lockerNumber = ''B1'',
      startTime = 0, status = Active\<rparr>"

definition unauthorized :: http_response where
  "unauthorized = \<lparr>response_status = 401, response_data = ''Unauthorized''\<rparr>"

definition not_found :: http_response where
  "not_found = \<lparr>response_status = 404, response_data = ''Not Found''\<rparr>"

definition session_storage :: asyncStorage where
  "session_storage =
     [''auth_token'' \<mapsto> ''token-1'', ''user_data'' \<mapsto> ''{}'', ''theme'' \<mapsto> ''dark'']"

text \<open>A booking state with three bookings, one of them in use.\<close>

definition three_bookings :: booking_state where
  "three_bookings =
     \<lparr>isLoading = False, error = None,
      bookings = [booking_later, booking_active, booking_soon],
      activeBookings = [booking_active], selectedBooking = None\<rparr>"

section \<open>Viewport framing: the rule for a user location and a business\<close>

text \<open>
  C1. For every user location \<open>u\<close> and every non-empty business list, the region has
  its center at the coordinate-wise midpoint of \<open>u\<close> and the first business (latitude
  read from \<open>coordinates[1]\<close>, longitude from \<open>coordinates[0]\<close>), latitude delta
  \<open>max (|u.lat - b.lat| * 2.5) 0.05\<close> and longitude delta \<open>max (|u.lon - b.lon| * 2.5) 0.05\<close>.
\<close>

theorem mapRegion_user_and_business:
  "bs \<noteq> [] \<Longrightarrow>
   mapRegion (Some u) bs =
     \<lparr>latitude = (latitude u + snd (coordinates (bs ! 0))) / 2,
      longitude = (longitude u + fst (coordinates (bs ! 0))) / 2,
      latitudeDelta = max (\<bar>latitude u - snd (coordinates (bs ! 0))\<bar> * 2.5) 0.05,
      longitudeDelta = max (\<bar>longitude u - fst (coordinates (bs ! 0))\<bar> * 2.5) 0.05\<rparr>"
  by (simp add: mapRegion_def calculateOptimalRegion_def Let_def)

text \<open>The scenario of the specification, with a second business behind the nearest.\<close>

theorem mapRegion_user_and_business_witness:
  "[scenario_business, downtown_business] \<noteq> [] \<and>
   mapRegion (Some scenario_user) [scenario_business, downtown_business] =
     \<lparr>latitude = 33.8578, longitude = -84.4017,
      latitudeDelta = 0.4245, longitudeDelta = 0.195\<rparr>"
  using mapRegion_user_and_business
    [of "[scenario_business, downtown_business]" scenario_user]
  by (simp add: scenario_user_def scenario_business_def)

text \<open>
  C3, as stated: the latitude delta is at least 0.05, the center lies strictly between
  the user and the first business, and the center is never the center of the Atlanta
  default region. With the user at the downtown point and a business at the same point
  the center is that point: it is the default center, and it is not strictly between.
\<close>

theorem mapRegion_center_counterexample:
  "latitude (mapRegion (Some downtown_user) [downtown_business]) = latitude atlantaRegion \<and>
   longitude (mapRegion (Some downtown_user) [downtown_business]) = longitude atlantaRegion \<and>
   \<not> latitude downtown_user < latitude (mapRegion (Some downtown_user) [downtown_business]) \<and>
   \<not> latitude (mapRegion (Some downtown_user) [downtown_business]) < latitude downtown_user"
  by (simp add: mapRegion_def calculateOptimalRegion_def Let_def atlantaRegion_def
      downtown_user_def downtown_business_def)

text \<open>
  C3, amended: both deltas are at least 0.05; in each coordinate the center lies between
  the user and the first business, end points included; in a coordinate where the two
  coincide the center is that value and the delta is exactly 0.05.
\<close>

theorem mapRegion_between:
  "bs \<noteq> [] \<Longrightarrow>
   latitudeDelta (mapRegion (Some u) bs) \<ge> 0.05 \<and>
   longitudeDelta (mapRegion (Some u) bs) \<ge> 0.05 \<and>
   min (latitude u) (snd (coordinates (bs ! 0))) \<le> latitude (mapRegion (Some u) bs) \<and>
   latitude (mapRegion (Some u) bs) \<le> max (latitude u) (snd (coordinates (bs ! 0))) \<and>
   min (longitude u) (fst (coordinates (bs ! 0))) \<le> longitude (mapRegion (Some u) bs) \<and>
   longitude (mapRegion (Some u) bs) \<le> max (longitude u) (fst (coordinates (bs ! 0))) \<and>
   (latitude u = snd (coordinates (bs ! 0)) \<longrightarrow>
      latitude (mapRegion (Some u) bs) = latitude u \<and>
      latitudeDelta (mapRegion (Some u) bs) = 0.05) \<and>
   (longitude u = fst (coordinates (bs ! 0)) \<longrightarrow>
      longitude (mapRegion (Some u) bs) = longitude u \<and>
      longitudeDelta (mapRegion (Some u) bs) = 0.05)"
  by (simp add: mapRegion_def calculateOptimalRegion_def Let_def min_def max_def)

text \<open>Two inputs: the scenario of the specification, and points that coincide.\<close>

theorem mapRegion_between_witness:
  "[scenario_business] \<noteq> [] \<and>
   latitudeDelta (mapRegion (Some scenario_user) [scenario_business]) \<ge> 0.05 \<and>
   33.7729 \<le> latitude (mapRegion (Some scenario_user) [scenario_business]) \<and>
   latitude (mapRegion (Some scenario_user) [scenario_business]) \<le> 33.9427 \<and>
   -84.4407 \<le> longitude (mapRegion (Some scenario_user) [scenario_business]) \<and>
   longitude (mapRegion (Some scenario_user) [scenario_business]) \<le> -84.3627 \<and>
   latitude downtown_user = snd (coordinates ([downtown_business] ! 0)) \<and>
   longitude downtown_user = fst (coordinates ([downtown_business] ! 0)) \<and>
   latitude (mapRegion (Some downtown_user) [downtown_business]) = 33.7490 \<and>
   longitude (mapRegion (Some downtown_user) [downtown_business]) = -84.3880 \<and>
   latitudeDelta (mapRegion (Some downtown_user) [downtown_business]) = 0.05 \<and>
   longitudeDelta (mapRegion (Some downtown_user) [downtown_business]) = 0.05"
  using mapRegion_between [of "[scenario_business]" scenario_user]
    mapRegion_between [of "[downtown_business]" downtown_user]
  by (simp add: scenario_user_def scenario_business_def downtown_user_def
      downtown_business_def)

section \<open>Viewport framing: the fallback rules\<close>

text \<open>
  C5. With a user location and no business the region is centered on the user with the
  fixed deltas 0.0922 and 0.0421; with no user location and a non-empty business list it
  is centered on the first business with the same deltas; with neither it is the Atlanta
  default region.
\<close>

theorem mapRegion_fallbacks:
  "mapRegion (Some u) [] =
     \<lparr>latitude = latitude u, longitude = longitude u,
      latitudeDelta = 0.0922, longitudeDelta = 0.0421\<rparr> \<and>
   mapRegion None (b # bs) =
     \<lparr>latitude = snd (coordinates b), longitude = fst (coordinates b),
      latitudeDelta = 0.0922, longitudeDelta = 0.0421\<rparr> \<and>
   mapRegion None [] =
     \<lparr>latitude = 33.7490, longitude = -84.3880,
      latitudeDelta = 0.0922, longitudeDelta = 0.0421\<rparr>"
  by (simp add: mapRegion_def atlantaRegion_def)

theorem mapRegion_fallbacks_witness:
  "mapRegion (Some scenario_user) [] =
     \<lparr>latitude = 33.9427, longitude = -84.4407,
      latitudeDelta = 0.0922, longitudeDelta = 0.0421\<rparr> \<and>
   mapRegion None [scenario_business, downtown_business] =
     \<lparr>latitude = 33.7729, longitude = -84.3627,
      latitudeDelta = 0.0922, longitudeDelta = 0.0421\<rparr> \<and>
   mapRegion None [] = atlantaRegion"
  using mapRegion_fallbacks [of scenario_user scenario_business "[downtown_business]"]
  by (simp add: scenario_user_def scenario_business_def atlantaRegion_def)

section \<open>Cancellation eligibility\<close>

text \<open>
  What the two screens compute. The bookings list offers cancellation when the status
  is neither completed nor cancelled and the start is at least one hour away; the
  details screen offers it when the status is confirmed or active.
\<close>

lemma canCancelBooking_iff:
  "canCancelBooking now b \<longleftrightarrow>
     status b \<noteq> Completed \<and> status b \<noteq> Cancelled \<and> startTime b - now \<ge> 1 * 60 * 60 * 1000"
  by (simp add: canCancelBooking_def Let_def)

lemma canCancel_iff: "canCancel b \<longleftrightarrow> status b = Confirmed \<or> status b = Active"
  by (simp add: canCancel_def)

text \<open>
  C2. On the client a booking can be cancelled if and only if its status is neither
  completed nor cancelled and its start is more than one hour after the current time;
  a confirmed booking that starts less than one hour from now cannot be cancelled.
  The code departs from this at two inputs, both seen at time 0. The bookings list
  offers cancellation for a confirmed booking that starts in exactly one hour: it
  compares with \<open>>= 1\<close>, where the comment on that line reads "more than 1 hour before
  start". The details screen offers cancellation for a confirmed booking that starts
  in half an hour, which the bookings list refuses for the same booking.
\<close>

theorem cancel_failing_inputs:
  "status booking_in_one_hour = Confirmed \<and>
   startTime booking_in_one_hour - 0 = 1 * 60 * 60 * 1000 \<and>
   canCancelBooking 0 booking_in_one_hour \<and>
   status booking_soon = Confirmed \<and>
   startTime booking_soon - 0 < 1 * 60 * 60 * 1000 \<and>
   canCancel booking_soon \<and>
   \<not> canCancelBooking 0 booking_soon"
  by (simp add: canCancelBooking_def canCancel_def Let_def booking_in_one_hour_def
      booking_soon_def)

section \<open>Search screen: explicit results before nearby results\<close>

text \<open>
  C10. The list on display is the search-results list whenever that list is non-empty;
  it is the nearby list only when the search-results list is empty; when both are empty
  it is empty.
\<close>

theorem displayBusinesses_precedence:
  "(businesses s \<noteq> [] \<longrightarrow> displayBusinesses s = businesses s) \<and>
   (displayBusinesses s = nearbyBusinesses s \<and> nearbyBusinesses s \<noteq> businesses s
      \<longrightarrow> businesses s = []) \<and>
   (businesses s = [] \<longrightarrow> displayBusinesses s = nearbyBusinesses s) \<and>
   (businesses s = [] \<and> nearbyBusinesses s = [] \<longrightarrow> displayBusinesses s = [])"
  by (auto simp add: displayBusinesses_def)

theorem displayBusinesses_precedence_witness:
  "displayBusinesses
     (business_initialState\<lparr>businesses := [scenario_business],
        nearbyBusinesses := [downtown_business]\<rparr>) = [scenario_business] \<and>
   displayBusinesses
     (business_initialState\<lparr>nearbyBusinesses := [downtown_business]\<rparr>) =
     [downtown_business] \<and>
   displayBusinesses business_initialState = []"
  using displayBusinesses_precedence
    [of "business_initialState\<lparr>businesses := [scenario_business],
           nearbyBusinesses := [downtown_business]\<rparr>"]
    displayBusinesses_precedence
    [of "business_initialState\<lparr>nearbyBusinesses := [downtown_business]\<rparr>"]
    displayBusinesses_precedence [of business_initialState]
  by (simp add: business_initialState_def)

section \<open>Rejected login and registration\<close>

text \<open>
  C9. For every auth state and every rejected login or registration, the reducer sets
  \<open>isLoading\<close> and \<open>isAuthenticated\<close> to false and records the error string, and leaves
  the stored user and token as they were.
\<close>

theorem auth_rejected_keeps_session:
  "a = LoginUserRejected msg \<or> a = RegisterUserRejected msg \<Longrightarrow>
   isLoading (authReducer s a) = False \<and>
   isAuthenticated (authReducer s a) = False \<and>
   error (authReducer s a) = Some msg \<and>
   user (authReducer s a) = user s \<and>
   token (authReducer s a) = token s"
  by auto

text \<open>A failed login on top of a loaded session.\<close>

theorem auth_rejected_keeps_session_witness:
  "token (authReducer
       (auth_initialState\<lparr>token := Some ''token-1'', isAuthenticated := True\<rparr>)
       (LoginUserRejected ''Login failed'')) = Some ''token-1'' \<and>
   isAuthenticated (authReducer
       (auth_initialState\<lparr>token := Some ''token-1'', isAuthenticated := True\<rparr>)
       (LoginUserRejected ''Login failed'')) = False \<and>
   error (authReducer
       (auth_initialState\<lparr>token := Some ''token-1'', isAuthenticated := True\<rparr>)
       (RegisterUserRejected ''Registration failed'')) = Some ''Registration failed''"
  using auth_rejected_keeps_session
    [of "LoginUserRejected ''Login failed''" "''Login failed''"
        "auth_initialState\<lparr>token := Some ''token-1'', isAuthenticated := True\<rparr>"]
    auth_rejected_keeps_session
    [of "RegisterUserRejected ''Registration failed''" "''Registration failed''"
        "auth_initialState\<lparr>token := Some ''token-1'', isAuthenticated := True\<rparr>"]
  by (simp add: auth_initialState_def)

section \<open>Session invalidation on 401\<close>

text \<open>
  C8. For every operation of the API client, a response with status 401 removes the
  persisted token and the cached user record from storage, and a response with another
  status, or no response at all, leaves the storage as it was.
\<close>

theorem interceptor_401_clears_session:
  "(response_status r = 401 \<longrightarrow>
      fst (apiCall operation storage (Some r)) ''auth_token'' = None \<and>
      fst (apiCall operation storage (Some r)) ''user_data'' = None) \<and>
   (response_status r \<noteq> 401 \<longrightarrow> fst (apiCall operation storage (Some r)) = storage) \<and>
   fst (apiCall operation storage None) = storage"
  by (simp add: apiCall_def onResponse_def onResponseError_def)

theorem interceptor_401_clears_session_witness:
  "response_status unauthorized = 401 \<and>
   fst (apiCall GetUserBookings session_storage (Some unauthorized)) ''auth_token'' = None \<and>
   fst (apiCall GetUserBookings session_storage (Some unauthorized)) ''user_data'' = None \<and>
   response_status not_found \<noteq> 401 \<and>
   fst (apiCall GetBusinessById session_storage (Some not_found)) ''auth_token'' =
     Some ''token-1''"
  using interceptor_401_clears_session [of unauthorized GetUserBookings session_storage]
    interceptor_401_clears_session [of not_found GetBusinessById session_storage]
  by (simp add: unauthorized_def not_found_def session_storage_def)

section \<open>Merging a booking into the booking state\<close>

subsection \<open>The index found, and the list operations as recursions\<close>

lemma findIndex_ge: "findIndex P xs \<ge> -1"
  by (induction xs) (auto simp: Let_def)

lemma findIndex_none: "findIndex P xs = -1 \<longleftrightarrow> (\<forall>x \<in> set xs. \<not> P x)"
proof (induction xs)
  case Nil
  show ?case by simp
next
  case (Cons x xs)
  with findIndex_ge [of P xs] show ?case by (auto simp: Let_def)
qed

lemma findIndex_Cons_nat:
  "\<not> P x \<Longrightarrow> findIndex P xs \<noteq> -1 \<Longrightarrow> nat (findIndex P (x # xs)) = Suc (nat (findIndex P xs))"
  using findIndex_ge [of P xs] by (simp add: Let_def)

lemma findIndex_first:
  "findIndex P xs \<noteq> -1 \<Longrightarrow>
     nat (findIndex P xs) < length xs \<and> P (xs ! nat (findIndex P xs)) \<and>
     (\<forall>j < nat (findIndex P xs). \<not> P (xs ! j))"
proof (induction xs)
  case Nil
  then show ?case by simp
next
  case (Cons x xs)
  show ?case
  proof (cases "P x")
    case True
    then show ?thesis by simp
  next
    case False
    with Cons.prems have found: "findIndex P xs \<noteq> -1" by (auto simp: Let_def split: if_splits)
    from False found have n: "nat (findIndex P (x # xs)) = Suc (nat (findIndex P xs))"
      by (rule findIndex_Cons_nat)
    from Cons.IH [OF found] False show ?thesis
      unfolding n by (auto simp: less_Suc_eq_0_disj)
  qed
qed

lemma replaceById_Nil: "replaceById p [] = []"
  by (simp add: replaceById_def)

lemma replaceById_Cons:
  "replaceById p (x # xs) =
     (if booking_id x = booking_id p then p # xs else x # replaceById p xs)"
  using findIndex_ge [of "\<lambda>b. booking_id b = booking_id p" xs]
  by (auto simp: replaceById_def Let_def nat_add_distrib)

lemma spliceById_Nil: "spliceById p [] = []"
  by (simp add: spliceById_def)

lemma spliceById_Cons:
  "spliceById p (x # xs) =
     (if booking_id x = booking_id p then xs else x # spliceById p xs)"
  using findIndex_ge [of "\<lambda>b. booking_id b = booking_id p" xs]
  by (auto simp: spliceById_def splice1_def Let_def nat_add_distrib)

lemma updateActive_conv:
  "updateActive p xs =
     (if (\<exists>b \<in> set xs. booking_id b = booking_id p)
      then (if status p = Active then replaceById p xs else spliceById p xs)
      else (if status p = Active then xs @ [p] else xs))"
  by (auto simp: updateActive_def replaceById_def spliceById_def Let_def findIndex_none)

lemma replaceById_first:
  "(\<exists>i < length xs. booking_id (xs ! i) = booking_id p \<and>
      (\<forall>j < i. booking_id (xs ! j) \<noteq> booking_id p) \<and> replaceById p xs = xs[i := p]) \<or>
   ((\<forall>b \<in> set xs. booking_id b \<noteq> booking_id p) \<and> replaceById p xs = xs)"
proof (cases "findIndex (\<lambda>b. booking_id b = booking_id p) xs = -1")
  case True
  then show ?thesis by (auto simp: replaceById_def findIndex_none)
next
  case False
  from findIndex_first [OF False] False show ?thesis
    by (auto simp: replaceById_def Let_def)
qed

lemma replaceById_mem:
  "(\<exists>b \<in> set xs. booking_id b = booking_id p) \<Longrightarrow> p \<in> set (replaceById p xs)"
  by (induction xs) (auto simp: replaceById_Nil replaceById_Cons)

lemma spliceById_absent:
  "distinct (map booking_id xs) \<Longrightarrow> (\<forall>b \<in> set (spliceById p xs). booking_id b \<noteq> booking_id p)"
proof (induction xs)
  case Nil
  show ?case by (simp add: spliceById_Nil)
next
  case (Cons x xs)
  show ?case
  proof (cases "booking_id x = booking_id p")
    case True
    from Cons.prems have "booking_id x \<notin> booking_id ` set xs" by simp
    with True have "\<forall>b \<in> set xs. booking_id b \<noteq> booking_id p" by (metis imageI)
    with True show ?thesis by (simp add: spliceById_Cons)
  next
    case False
    from Cons.prems have "distinct (map booking_id xs)" by simp
    with Cons.IH False show ?thesis by (simp add: spliceById_Cons)
  qed
qed

lemma spliceById_others:
  "filter (\<lambda>b. booking_id b \<noteq> booking_id p) (spliceById p xs) =
   filter (\<lambda>b. booking_id b \<noteq> booking_id p) xs"
  by (induction xs) (auto simp: spliceById_Nil spliceById_Cons)

lemma replaceById_others:
  "filter (\<lambda>b. booking_id b \<noteq> booking_id p) (replaceById p xs) =
   filter (\<lambda>b. booking_id b \<noteq> booking_id p) xs"
  by (induction xs) (auto simp: replaceById_Nil replaceById_Cons)

lemma updateActive_others:
  "filter (\<lambda>b. booking_id b \<noteq> booking_id p) (updateActive p xs) =
   filter (\<lambda>b. booking_id b \<noteq> booking_id p) xs"
  by (simp add: updateActive_conv replaceById_others spliceById_others)

lemma updateActive_present: "status p = Active \<Longrightarrow> p \<in> set (updateActive p xs)"
  by (simp add: updateActive_conv replaceById_mem)

text \<open>
  The active list after a removal and after an update, by the first index that holds
  the id.
\<close>

lemma spliceById_first:
  "(\<exists>i < length xs. booking_id (xs ! i) = booking_id p \<and>
      (\<forall>j < i. booking_id (xs ! j) \<noteq> booking_id p) \<and>
      spliceById p xs = take i xs @ drop (Suc i) xs) \<or>
   ((\<forall>b \<in> set xs. booking_id b \<noteq> booking_id p) \<and> spliceById p xs = xs)"
proof (cases "findIndex (\<lambda>b. booking_id b = booking_id p) xs = -1")
  case True
  then show ?thesis by (auto simp: spliceById_def findIndex_none)
next
  case False
  from findIndex_first [OF False] False show ?thesis
    by (auto simp: spliceById_def splice1_def Let_def)
qed

lemma updateActive_active:
  "status p = Active \<Longrightarrow>
   (\<exists>i < length xs. booking_id (xs ! i) = booking_id p \<and>
      (\<forall>j < i. booking_id (xs ! j) \<noteq> booking_id p) \<and>
      updateActive p xs = xs[i := p]) \<or>
   ((\<forall>b \<in> set xs. booking_id b \<noteq> booking_id p) \<and> updateActive p xs = xs @ [p])"
proof (cases "findIndex (\<lambda>b. booking_id b = booking_id p) xs = -1")
  case True
  assume "status p = Active"
  with True show ?thesis by (auto simp: updateActive_def findIndex_none)
next
  case False
  assume "status p = Active"
  with findIndex_first [OF False] False show ?thesis
    by (auto simp: updateActive_def Let_def)
qed

lemma updateActive_inactive:
  "status p \<noteq> Active \<Longrightarrow> updateActive p xs = spliceById p xs"
  by (simp add: updateActive_def spliceById_def Let_def)

subsection \<open>The merge rules\<close>

text \<open>
  C6, as stated: after a successful status update or cancellation the booking is in the
  active-bookings list if and only if its new status is active. The cancel case removes
  the booking from the active list without reading the status: a cancellation that
  answers with a booking still active leaves it out of the list.
\<close>

theorem cancel_active_counterexample:
  "status booking_active = Active \<and>
   booking_active \<in> set (activeBookings three_bookings) \<and>
   booking_active \<notin> set (activeBookings
     (bookingReducer three_bookings (CancelBookingFulfilled booking_active)))"
  by (simp add: three_bookings_def booking_active_def spliceById_def splice1_def)

text \<open>
  C6, amended. A created booking is put at the front of the bookings list, and at the
  front of the active list exactly when its status is active. A status update and a
  cancellation replace the first entry of the bookings list that has the booking's id,
  in place, leave the list as it is when no entry has the id, and keep the entries of
  the active list that have another id, in their order. A status update to active
  replaces the first entry of the active list that has the id, in place, or puts the
  booking at the end of the active list when no entry has the id: the booking is in
  the list afterwards. A status update to another status, and a cancellation whatever
  the new status, remove the first entry of the active list that has the id and leave
  the list as it is when no entry has it: with distinct ids in the active list no
  entry with the id is left.
\<close>

theorem booking_merge_rules:
  "bookings (bookingReducer s (CreateBookingFulfilled p)) = p # bookings s \<and>
   activeBookings (bookingReducer s (CreateBookingFulfilled p)) =
     (if status p = Active then p # activeBookings s else activeBookings s) \<and>
   (a = UpdateBookingStatusFulfilled p \<or> a = CancelBookingFulfilled p \<longrightarrow>
      ((\<exists>i < length (bookings s).
          booking_id (bookings s ! i) = booking_id p \<and>
          (\<forall>j < i. booking_id (bookings s ! j) \<noteq> booking_id p) \<and>
          bookings (bookingReducer s a) = (bookings s)[i := p]) \<or>
       ((\<forall>b \<in> set (bookings s). booking_id b \<noteq> booking_id p) \<and>
          bookings (bookingReducer s a) = bookings s)) \<and>
      filter (\<lambda>b. booking_id b \<noteq> booking_id p) (activeBookings (bookingReducer s a)) =
        filter (\<lambda>b. booking_id b \<noteq> booking_id p) (activeBookings s)) \<and>
   (a = UpdateBookingStatusFulfilled p \<and> status p = Active \<longrightarrow>
      ((\<exists>i < length (activeBookings s).
          booking_id (activeBookings s ! i) = booking_id p \<and>
          (\<forall>j < i. booking_id (activeBookings s ! j) \<noteq> booking_id p) \<and>
          activeBookings (bookingReducer s a) = (activeBookings s)[i := p]) \<or>
       ((\<forall>b \<in> set (activeBookings s). booking_id b \<noteq> booking_id p) \<and>
          activeBookings (bookingReducer s a) = activeBookings s @ [p])) \<and>
      p \<in> set (activeBookings (bookingReducer s a))) \<and>
   (a = UpdateBookingStatusFulfilled p \<and> status p \<noteq> Active \<or> a = CancelBookingFulfilled p
      \<longrightarrow>
      ((\<exists>i < length (activeBookings s).
          booking_id (activeBookings s ! i) = booking_id p \<and>
          (\<forall>j < i. booking_id (activeBookings s ! j) \<noteq> booking_id p) \<and>
          activeBookings (bookingReducer s a) =
            take i (activeBookings s) @ drop (Suc i) (activeBookings s)) \<or>
       ((\<forall>b \<in> set (activeBookings s). booking_id b \<noteq> booking_id p) \<and>
          activeBookings (bookingReducer s a) = activeBookings s)) \<and>
      (distinct (map booking_id (activeBookings s)) \<longrightarrow>
         (\<forall>b \<in> set (activeBookings (bookingReducer s a)). booking_id b \<noteq> booking_id p)))"
proof -
  have create: "bookings (bookingReducer s (CreateBookingFulfilled p)) = p # bookings s"
    "activeBookings (bookingReducer s (CreateBookingFulfilled p)) =
       (if status p = Active then p # activeBookings s else activeBookings s)"
    by simp_all
  have in_place: "a = UpdateBookingStatusFulfilled p \<or> a = CancelBookingFulfilled p \<longrightarrow>
      ((\<exists>i < length (bookings s).
          booking_id (bookings s ! i) = booking_id p \<and>
          (\<forall>j < i. booking_id (bookings s ! j) \<noteq> booking_id p) \<and>
          bookings (bookingReducer s a) = (bookings s)[i := p]) \<or>
       ((\<forall>b \<in> set (bookings s). booking_id b \<noteq> booking_id p) \<and>
          bookings (bookingReducer s a) = bookings s)) \<and>
      filter (\<lambda>b. booking_id b \<noteq> booking_id p) (activeBookings (bookingReducer s a)) =
        filter (\<lambda>b. booking_id b \<noteq> booking_id p) (activeBookings s)"
    (is "_ \<longrightarrow> ?merged")
  proof
    assume a: "a = UpdateBookingStatusFulfilled p \<or> a = CancelBookingFulfilled p"
    then have b: "bookings (bookingReducer s a) = replaceById p (bookings s)"
      by auto
    from a have others:
      "filter (\<lambda>b. booking_id b \<noteq> booking_id p) (activeBookings (bookingReducer s a)) =
       filter (\<lambda>b. booking_id b \<noteq> booking_id p) (activeBookings s)"
      by (auto simp: updateActive_others spliceById_others)
    show ?merged
      unfolding b by (rule conjI [OF replaceById_first others])
  qed
  have made_active: "a = UpdateBookingStatusFulfilled p \<and> status p = Active \<longrightarrow>
      ((\<exists>i < length (activeBookings s).
          booking_id (activeBookings s ! i) = booking_id p \<and>
          (\<forall>j < i. booking_id (activeBookings s ! j) \<noteq> booking_id p) \<and>
          activeBookings (bookingReducer s a) = (activeBookings s)[i := p]) \<or>
       ((\<forall>b \<in> set (activeBookings s). booking_id b \<noteq> booking_id p) \<and>
          activeBookings (bookingReducer s a) = activeBookings s @ [p])) \<and>
      p \<in> set (activeBookings (bookingReducer s a))"
    (is "_ \<longrightarrow> ?present")
  proof
    assume a: "a = UpdateBookingStatusFulfilled p \<and> status p = Active"
    then have act: "activeBookings (bookingReducer s a) = updateActive p (activeBookings s)"
      by simp
    from a have st: "status p = Active" by simp
    show ?present
      unfolding act
      by (rule conjI [OF updateActive_active [OF st] updateActive_present [OF st]])
  qed
  have removed: "a = UpdateBookingStatusFulfilled p \<and> status p \<noteq> Active \<or>
      a = CancelBookingFulfilled p \<longrightarrow>
      ((\<exists>i < length (activeBookings s).
          booking_id (activeBookings s ! i) = booking_id p \<and>
          (\<forall>j < i. booking_id (activeBookings s ! j) \<noteq> booking_id p) \<and>
          activeBookings (bookingReducer s a) =
            take i (activeBookings s) @ drop (Suc i) (activeBookings s)) \<or>
       ((\<forall>b \<in> set (activeBookings s). booking_id b \<noteq> booking_id p) \<and>
          activeBookings (bookingReducer s a) = activeBookings s)) \<and>
      (distinct (map booking_id (activeBookings s)) \<longrightarrow>
         (\<forall>b \<in> set (activeBookings (bookingReducer s a)). booking_id b \<noteq> booking_id p))"
    (is "_ \<longrightarrow> ?absent")
  proof
    assume a: "a = UpdateBookingStatusFulfilled p \<and> status p \<noteq> Active \<or>
      a = CancelBookingFulfilled p"
    then have act: "activeBookings (bookingReducer s a) = spliceById p (activeBookings s)"
      by (auto simp: updateActive_inactive)
    have none_left: "distinct (map booking_id (activeBookings s)) \<longrightarrow>
        (\<forall>b \<in> set (spliceById p (activeBookings s)). booking_id b \<noteq> booking_id p)"
      using spliceById_absent [of "activeBookings s" p] by blast
    show ?absent
      unfolding act by (rule conjI [OF spliceById_first none_left])
  qed
  from create in_place made_active removed show ?thesis
    by (intro conjI)
qed

text \<open>
  On the state with three bookings: a created booking that is not active, the booking
  in use completed, a confirmed booking made active, the booking in use cancelled; and
  on an active list that holds the booking in use twice, the same cancellation.
\<close>

theorem booking_merge_rules_witness:
  "bookings (bookingReducer three_bookings (CreateBookingFulfilled booking_done)) =
     [booking_done, booking_later, booking_active, booking_soon] \<and>
   activeBookings (bookingReducer three_bookings (CreateBookingFulfilled booking_done)) =
     [booking_active] \<and>
   bookings (bookingReducer three_bookings
       (UpdateBookingStatusFulfilled (booking_active\<lparr>status := Completed\<rparr>))) =
     [booking_later, booking_active\<lparr>status := Completed\<rparr>, booking_soon] \<and>
   distinct (map booking_id (activeBookings three_bookings)) \<and>
   activeBookings (bookingReducer three_bookings
       (UpdateBookingStatusFulfilled (booking_active\<lparr>status := Completed\<rparr>))) = [] \<and>
   activeBookings (bookingReducer three_bookings
       (UpdateBookingStatusFulfilled (booking_later\<lparr>status := Active\<rparr>))) =
     [booking_active, booking_later\<lparr>status := Active\<rparr>] \<and>
   activeBookings (bookingReducer three_bookings
       (CancelBookingFulfilled (booking_active\<lparr>status := Cancelled\<rparr>))) = [] \<and>
   activeBookings
     (bookingReducer
        (three_bookings\<lparr>activeBookings := [booking_active, booking_later, booking_active]\<rparr>)
        (CancelBookingFulfilled (booking_active\<lparr>status := Cancelled\<rparr>))) =
     [booking_later, booking_active]"
  using booking_merge_rules
    [of three_bookings booking_done "CancelBookingFulfilled booking_done"]
    booking_merge_rules
    [of three_bookings "booking_active\<lparr>status := Completed\<rparr>"
        "UpdateBookingStatusFulfilled (booking_active\<lparr>status := Completed\<rparr>)"]
    booking_merge_rules
    [of three_bookings "booking_later\<lparr>status := Active\<rparr>"
        "UpdateBookingStatusFulfilled (booking_later\<lparr>status := Active\<rparr>)"]
    booking_merge_rules
    [of three_bookings "booking_active\<lparr>status := Cancelled\<rparr>"
        "CancelBookingFulfilled (booking_active\<lparr>status := Cancelled\<rparr>)"]
    booking_merge_rules
    [of "three_bookings\<lparr>activeBookings := [booking_active, booking_later, booking_active]\<rparr>"
        "booking_active\<lparr>status := Cancelled\<rparr>"
        "CancelBookingFulfilled (booking_active\<lparr>status := Cancelled\<rparr>)"]
  by (simp add: three_bookings_def booking_active_def booking_later_def booking_soon_def
      booking_done_def replaceById_def updateActive_def spliceById_def splice1_def)

section \<open>The failure phase of the operations\<close>

text \<open>
  C7, as stated: the failure phase of every operation of the three containers sets the
  loading flag to false and stores the error string. A rejected load of the stored
  session stores no error, and a rejected status update has no case in the booking
  reducer: the loading flag set by another operation stays set and no error is stored.
\<close>

theorem loadStoredAuth_rejected_counterexample:
  "isLoading (authReducer auth_initialState LoadStoredAuthPending) \<and>
   error (authReducer (authReducer auth_initialState LoadStoredAuthPending)
     (LoadStoredAuthRejected ''No stored auth data'')) = None \<and>
   isLoading (bookingReducer (bookingReducer booking_initialState CreateBookingPending)
     (UpdateBookingStatusRejected ''Failed to update booking'')) \<and>
   error (bookingReducer (bookingReducer booking_initialState CreateBookingPending)
     (UpdateBookingStatusRejected ''Failed to update booking'')) = None"
  by (simp add: auth_initialState_def booking_initialState_def)

text \<open>
  C7, amended. A rejected login, registration or profile update, a rejected search,
  nearby fetch or business fetch, and a rejected booking creation, bookings fetch or
  cancellation set the loading flag to false, store the error string and leave the
  data of their container as it was (user and token; the two business lists, the
  selected business and the search parameters; the two booking lists and the selected
  booking). A rejected load of the stored session sets the loading flag to false and
  leaves error, user and token as they were. A rejected logout, active-bookings fetch,
  status update, check-in or check-out leaves the whole state as it was.
\<close>

theorem rejected_phase:
  "(a = LoginUserRejected msg \<or> a = RegisterUserRejected msg \<or> a = UpdateProfileRejected msg
      \<longrightarrow> isLoading (authReducer s a) = False \<and> error (authReducer s a) = Some msg \<and>
          user (authReducer s a) = user s \<and> token (authReducer s a) = token s) \<and>
   isLoading (authReducer s (LoadStoredAuthRejected msg)) = False \<and>
   error (authReducer s (LoadStoredAuthRejected msg)) = error s \<and>
   user (authReducer s (LoadStoredAuthRejected msg)) = user s \<and>
   token (authReducer s (LoadStoredAuthRejected msg)) = token s \<and>
   authReducer s (LogoutUserRejected msg) = s \<and>
   (b = SearchBusinessesRejected msg \<or> b = FetchNearbyBusinessesRejected msg \<or>
    b = FetchBusinessByIdRejected msg
      \<longrightarrow> isLoading (businessReducer t b) = False \<and>
          error (businessReducer t b) = Some msg \<and>
          businesses (businessReducer t b) = businesses t \<and>
          nearbyBusinesses (businessReducer t b) = nearbyBusinesses t \<and>
          selectedBusiness (businessReducer t b) = selectedBusiness t \<and>
          searchParams (businessReducer t b) = searchParams t) \<and>
   (c = CreateBookingRejected msg \<or> c = FetchUserBookingsRejected msg \<or>
    c = CancelBookingRejected msg
      \<longrightarrow> isLoading (bookingReducer v c) = False \<and>
          error (bookingReducer v c) = Some msg \<and>
          bookings (bookingReducer v c) = bookings v \<and>
          activeBookings (bookingReducer v c) = activeBookings v \<and>
          selectedBooking (bookingReducer v c) = selectedBooking v) \<and>
   (c = FetchActiveBookingsRejected msg \<or> c = UpdateBookingStatusRejected msg \<or>
    c = CheckInToLockerRejected msg \<or> c = CheckOutFromLockerRejected msg
      \<longrightarrow> bookingReducer v c = v)"
  by auto

theorem rejected_phase_witness:
  "error (bookingReducer three_bookings (CancelBookingRejected ''Failed to cancel booking''))
     = Some ''Failed to cancel booking'' \<and>
   bookings (bookingReducer three_bookings (CancelBookingRejected ''Failed to cancel booking''))
     = [booking_later, booking_active, booking_soon] \<and>
   bookingReducer three_bookings (CheckInToLockerRejected ''Failed to check in'')
     = three_bookings \<and>
   error (authReducer auth_initialState (UpdateProfileRejected ''Profile update failed''))
     = Some ''Profile update failed'' \<and>
   businesses (businessReducer (business_initialState\<lparr>businesses := [scenario_business]\<rparr>)
       (SearchBusinessesRejected ''Search failed'')) = [scenario_business]"
  using rejected_phase
    [of "UpdateProfileRejected ''Profile update failed''" "''Profile update failed''"
        auth_initialState "SearchBusinessesRejected ''Profile update failed''"
        "business_initialState" "CheckInToLockerRejected ''Profile update failed''"
        three_bookings]
    rejected_phase
    [of "LoginUserRejected ''Search failed''" "''Search failed''"
        auth_initialState "SearchBusinessesRejected ''Search failed''"
        "business_initialState\<lparr>businesses := [scenario_business]\<rparr>"
        "CreateBookingRejected ''Search failed''" three_bookings]
    rejected_phase
    [of "LoginUserRejected ''Failed to cancel booking''" "''Failed to cancel booking''"
        auth_initialState "SearchBusinessesRejected ''Failed to cancel booking''"
        "business_initialState" "CancelBookingRejected ''Failed to cancel booking''"
        three_bookings]
    rejected_phase
    [of "LoginUserRejected ''Failed to check in''" "''Failed to check in''"
        auth_initialState "SearchBusinessesRejected ''Failed to check in''"
        "business_initialState" "CheckInToLockerRejected ''Failed to check in''"
        three_bookings]
  by (simp add: three_bookings_def business_initialState_def auth_initialState_def)

end
